theory Spec2Isabelle
  imports Main
begin

section \<open>The server resource of the gridscale provider\<close>

text \<open>
  A shallow embedding of \<^verbatim>\<open>resourceGridscaleServerCreate\<close>, \<^verbatim>\<open>resourceGridscaleServerUpdate\<close>,
  \<^verbatim>\<open>resourceGridscaleServerDelete\<close> and \<^verbatim>\<open>resourceGridscaleServerRead\<close>. The functions are
  procedures that issue calls on the gsclient, one after the other, and return at the first
  error they check. The embedding keeps that shape: a procedure is a function on the list of
  calls issued so far, which returns its result (an error or a value) and the extended list.

  Modelling decisions:
  \<^item> The functions read the collection attributes \<^verbatim>\<open>storage\<close> and \<^verbatim>\<open>network\<close> through the type
    assertion \<^verbatim>\<open>.(*schema.Set)\<close> and enumerate them with \<^verbatim>\<open>List()\<close>. The schema declares
    \<^verbatim>\<open>network\<close> as \<^verbatim>\<open>TypeSet\<close>: its value is a set, the assertion succeeds, and the value is
    modelled as the list that \<^verbatim>\<open>List()\<close> enumerates. The schema declares \<^verbatim>\<open>storage\<close> as
    \<^verbatim>\<open>TypeList\<close>: its value is a slice, and the assertion on it is a run-time panic. The value
    of \<^verbatim>\<open>storage\<close> therefore keeps its dynamic type (\<open>attr_value\<close>), the assertion is the
    procedure \<open>assert_set\<close>, and \<open>schema_conform\<close> says which values the schema produces.
    A panic ends the function; it is the outcome \<open>Inl (Panic _)\<close>.
  \<^item> \<^verbatim>\<open>HasChange\<close> on a collection is inequality of the old and the new value (for a set, of the
    enumerations, which are a function of the set).
  \<^item> An element of a collection is a map in the source. The functions read \<^verbatim>\<open>object_uuid\<close> and
    \<^verbatim>\<open>bootdevice\<close> only; the remaining attributes take part in \<^verbatim>\<open>HasChange\<close> and are kept
    together in the field \<open>computed\<close>.
  \<^item> For a key that is read with \<^verbatim>\<open>GetChange\<close> or \<^verbatim>\<open>HasChange\<close> the resource data holds the old and
    the new value; \<^verbatim>\<open>Get\<close> and \<^verbatim>\<open>GetOk\<close> read the new one. The old name is kept as well,
    although no function reads it, so that a change of the name can be stated.
  \<^item> The client is a parameter: for each call, after each history of calls, it says whether
    the call fails and with which error. What \<^verbatim>\<open>resourceGridscaleServerRead\<close> writes into the
    resource data is left out; nothing below reads it.
\<close>

subsection \<open>Data\<close>

record relation =
  object_uuid :: string
  bootdevice :: bool
  computed :: "string list"

text \<open>
  What \<^verbatim>\<open>Get\<close> returns for a collection attribute: a slice for an attribute declared
  \<^verbatim>\<open>TypeList\<close>, a \<^verbatim>\<open>*schema.Set\<close> (given by its enumeration) for one declared \<^verbatim>\<open>TypeSet\<close>.
\<close>

datatype attr_value = ListValue "relation list" | SetValue "relation list"

fun elements :: "attr_value \<Rightarrow> relation list" where
  "elements (ListValue xs) = xs"
| "elements (SetValue xs) = xs"

record resource_data =
  res_id :: string
  name_old :: string
  name :: string
  location_uuid :: string
  availability_zone :: string
  hardware_profile :: string
  labels :: "string list"
  legacy :: bool
  power_attr :: bool
  cores_old :: int
  cores_new :: int
  memory_old :: int
  memory_new :: int
  ipv4_old :: string
  ipv4_new :: string
  ipv6_old :: string
  ipv6_new :: string
  isoimage_old :: string
  isoimage_new :: string
  network_old :: "relation list"
  network_new :: "relation list"
  storage_old :: attr_value
  storage_new :: attr_value

text \<open>The schema of the resource declares \<^verbatim>\<open>storage\<close> as \<^verbatim>\<open>schema.TypeList\<close>.\<close>

definition schema_conform :: "resource_data \<Rightarrow> bool" where
  "schema_conform d =
     ((case storage_old d of ListValue xs \<Rightarrow> True | SetValue xs \<Rightarrow> False)
      \<and> (case storage_new d of ListValue xs \<Rightarrow> True | SetValue xs \<Rightarrow> False))"

datatype hardware =
  DefaultServerHardware | LegacyServerHardware | NestedServerHardware
  | CiscoCSRServerHardware | SophosUTMServerHardware | F5BigipServerHardware
  | Q35ServerHardware | Q35NestedServerHardware

record ServerCreateRequest =
  Name :: string
  Cores :: int
  Memory :: int
  LocationUUID :: string
  AvailablityZone :: string
  Labels :: "string list"
  HardwareProfile :: hardware
  IsoImages :: "string list"
  Storages :: "(string \<times> bool) list"
  Networks :: "(string \<times> bool) list"
  PublicIPs :: "string list"

record ServerUpdateRequest =
  upd_Name :: string
  upd_AvailablityZone :: string
  upd_Labels :: "string list"
  upd_Cores :: int
  upd_Memory :: int

text \<open>The calls on the client. The first string of a call on a server is the server's id.\<close>

datatype call =
  GetServer string
  | GetIPVersion string
  | GetNetworkPublic
  | CreateServer ServerCreateRequest
  | UpdateServer string ServerUpdateRequest
  | ShutdownServer string
  | StartServer string
  | StopServer string
  | DeleteServer string
  | LinkStorage string string bool
  | UnlinkStorage string string
  | LinkNetwork string string bool
  | UnlinkNetwork string string
  | LinkIP string string
  | UnlinkIP string string
  | LinkIsoImage string string
  | UnlinkIsoImage string string

datatype error =
  RequestError int
  | ClientError string
  | NotVersion string int
  | CreateFailed string error
  | Panic string

record client =
  call_error :: "call list \<Rightarrow> call \<Rightarrow> error option"
  ip_version :: "string \<Rightarrow> int"
  public_network_uuid :: string
  created_server_uuid :: string

subsection \<open>Procedures\<close>

type_synonym 'a io = "call list \<Rightarrow> (error + 'a) \<times> call list"

definition return_io :: "'a \<Rightarrow> 'a io" where
  "return_io x tr = (Inr x, tr)"

definition fail_io :: "error \<Rightarrow> 'a io" where
  "fail_io e tr = (Inl e, tr)"

definition bind_io :: "'a io \<Rightarrow> ('a \<Rightarrow> 'b io) \<Rightarrow> 'b io" where
  "bind_io m f tr = (case m tr of (Inl e, tr') \<Rightarrow> (Inl e, tr') | (Inr x, tr') \<Rightarrow> f x tr')"

definition when_io :: "bool \<Rightarrow> unit io \<Rightarrow> unit io" where
  "when_io b m = (if b then m else return_io ())"

fun steps :: "unit io list \<Rightarrow> unit io" where
  "steps [] = return_io ()"
| "steps (m # ms) = bind_io m (\<lambda>_. steps ms)"

fun for_each :: "('a \<Rightarrow> unit io) \<Rightarrow> 'a list \<Rightarrow> unit io" where
  "for_each f [] = return_io ()"
| "for_each f (x # xs) = bind_io (f x) (\<lambda>_. for_each f xs)"

text \<open>A call whose error the caller checks: \<^verbatim>\<open>err = client.F(...); if err != nil { return err }\<close>.\<close>

definition request :: "client \<Rightarrow> call \<Rightarrow> unit io" where
  "request cl c tr =
     (case call_error cl tr c of None \<Rightarrow> Inr () | Some e \<Rightarrow> Inl e, tr @ [c])"

text \<open>A call whose error the caller drops: \<^verbatim>\<open>client.F(...)\<close> as a statement.\<close>

definition request_unchecked :: "client \<Rightarrow> call \<Rightarrow> unit io" where
  "request_unchecked cl c tr = (Inr (), tr @ [c])"

definition get_network_public :: "client \<Rightarrow> string io" where
  "get_network_public cl tr =
     (case call_error cl tr GetNetworkPublic of
        None \<Rightarrow> Inr (public_network_uuid cl)
      | Some e \<Rightarrow> Inl e, tr @ [GetNetworkPublic])"

definition get_ip_version :: "client \<Rightarrow> string \<Rightarrow> int io" where
  "get_ip_version cl u tr = (Inr (ip_version cl u), tr @ [GetIPVersion u])"

text \<open>The type assertion \<^verbatim>\<open>v.(*schema.Set)\<close> followed by \<^verbatim>\<open>List()\<close>.\<close>

definition assert_set :: "attr_value \<Rightarrow> relation list io" where
  "assert_set v =
     (case v of
        SetValue xs \<Rightarrow> return_io xs
      | ListValue xs \<Rightarrow>
          fail_io (Panic ''interface conversion: interface {} is []interface {}, not *schema.Set''))"

definition calls_issued :: "'a io \<Rightarrow> call list" where
  "calls_issued m = snd (m [])"

definition outcome :: "'a io \<Rightarrow> error + 'a" where
  "outcome m = fst (m [])"

subsection \<open>Read and delete\<close>

definition resourceGridscaleServerRead :: "client \<Rightarrow> resource_data \<Rightarrow> unit io" where
  "resourceGridscaleServerRead cl d tr =
     (case call_error cl tr (GetServer (res_id d)) of
        None \<Rightarrow> Inr ()
      | Some e \<Rightarrow> (if e = RequestError 404 then Inr () else Inl e),
      tr @ [GetServer (res_id d)])"

definition resourceGridscaleServerDelete :: "client \<Rightarrow> resource_data \<Rightarrow> unit io" where
  "resourceGridscaleServerDelete cl d =
     steps [request cl (StopServer (res_id d)), request cl (DeleteServer (res_id d))]"

subsection \<open>Create\<close>

definition hardware_of :: "string \<Rightarrow> hardware" where
  "hardware_of profile =
     (if profile = ''legacy'' then LegacyServerHardware
      else if profile = ''nested'' then NestedServerHardware
      else if profile = ''cisco_csr'' then CiscoCSRServerHardware
      else if profile = ''sophos_utm'' then SophosUTMServerHardware
      else if profile = ''f5_bigip'' then F5BigipServerHardware
      else if profile = ''q35'' then Q35ServerHardware
      else if profile = ''q35_nested'' then Q35NestedServerHardware
      else DefaultServerHardware)"

text \<open>The first loop over \<^verbatim>\<open>storage\<close>: only the elements with \<^verbatim>\<open>bootdevice\<close> go into the request.\<close>

fun create_storages :: "relation list \<Rightarrow> (string \<times> bool) list" where
  "create_storages [] = []"
| "create_storages (s # ss) =
     (if bootdevice s then (object_uuid s, bootdevice s) # create_storages ss
      else create_storages ss)"

text \<open>
  \<^verbatim>\<open>GetOk\<close> on \<^verbatim>\<open>storage\<close> (true for a non-empty value), the type assertion and the loop.
\<close>

definition create_boot_storages :: "attr_value \<Rightarrow> (string \<times> bool) list io" where
  "create_boot_storages v =
     (if elements v \<noteq> [] then
        bind_io (assert_set v) (\<lambda>xs. return_io (create_storages xs))
      else return_io [])"

text \<open>\<^verbatim>\<open>GetOk\<close> on an address, the check of its family and the entry of the request.\<close>

definition create_ip :: "client \<Rightarrow> string \<Rightarrow> int \<Rightarrow> string list io" where
  "create_ip cl u v =
     (if u \<noteq> [] then
        bind_io (get_ip_version cl u)
          (\<lambda>w. if w \<noteq> v then fail_io (NotVersion u v) else return_io [u])
      else return_io [])"

definition create_public_network :: "client \<Rightarrow> string list \<Rightarrow> (string \<times> bool) list io" where
  "create_public_network cl ips =
     (if length ips > 0 then
        bind_io (get_network_public cl) (\<lambda>pub. return_io [(pub, False)])
      else return_io [])"

text \<open>
  The request without its storages, which line 477 initialises to the empty list; the
  storages of the first loop are put in by \<open>build_request\<close>.
\<close>

definition create_request ::
  "resource_data \<Rightarrow> string list \<Rightarrow> (string \<times> bool) list \<Rightarrow> ServerCreateRequest" where
  "create_request d ips pubnet =
     \<lparr> Name = name d, Cores = cores_new d, Memory = memory_new d,
       LocationUUID = location_uuid d, AvailablityZone = availability_zone d,
       Labels = labels d, HardwareProfile = hardware_of (hardware_profile d),
       IsoImages = (if isoimage_new d \<noteq> [] then [isoimage_new d] else []),
       Storages = [],
       Networks = pubnet @ map (\<lambda>n. (object_uuid n, bootdevice n)) (network_new d),
       PublicIPs = ips \<rparr>"

definition create_server :: "client \<Rightarrow> ServerCreateRequest \<Rightarrow> string io" where
  "create_server cl rb tr =
     (case call_error cl tr (CreateServer rb) of
        None \<Rightarrow> Inr (created_server_uuid cl)
      | Some e \<Rightarrow> Inl (CreateFailed (Name rb) e), tr @ [CreateServer rb])"

definition link_rest :: "client \<Rightarrow> string \<Rightarrow> relation \<Rightarrow> unit io" where
  "link_rest cl sid s =
     when_io (\<not> bootdevice s) (request cl (LinkStorage sid (object_uuid s) (bootdevice s)))"

text \<open>The function up to the creation call: it assembles the request.\<close>

definition build_request :: "client \<Rightarrow> resource_data \<Rightarrow> ServerCreateRequest io" where
  "build_request cl d =
     bind_io (create_boot_storages (storage_new d)) (\<lambda>storages.
     bind_io (create_ip cl (ipv4_new d) 4) (\<lambda>ip4.
     bind_io (create_ip cl (ipv6_new d) 6) (\<lambda>ip6.
     bind_io (create_public_network cl (ip4 @ ip6)) (\<lambda>pubnet.
       return_io ((create_request d (ip4 @ ip6) pubnet)\<lparr>Storages := storages\<rparr>)))))"

text \<open>The second loop over \<^verbatim>\<open>storage\<close>, again behind \<^verbatim>\<open>GetOk\<close> and the type assertion.\<close>

definition link_rest_storages :: "client \<Rightarrow> string \<Rightarrow> attr_value \<Rightarrow> unit io" where
  "link_rest_storages cl sid v =
     when_io (elements v \<noteq> [])
       (bind_io (assert_set v) (for_each (link_rest cl sid)))"

text \<open>The function after the creation call, on the id that the call returned.\<close>

definition after_create :: "client \<Rightarrow> resource_data \<Rightarrow> string \<Rightarrow> unit io" where
  "after_create cl d sid =
     steps
       [link_rest_storages cl sid (storage_new d),
        when_io (power_attr d) (request_unchecked cl (StartServer sid)),
        resourceGridscaleServerRead cl (d\<lparr>res_id := sid\<rparr>)]"

definition resourceGridscaleServerCreate :: "client \<Rightarrow> resource_data \<Rightarrow> unit io" where
  "resourceGridscaleServerCreate cl d =
     bind_io (build_request cl d) (\<lambda>requestBody.
     bind_io (create_server cl requestBody) (after_create cl d))"

subsection \<open>Update\<close>

definition shutdownRequired :: "resource_data \<Rightarrow> bool" where
  "shutdownRequired d =
     (let r0 = False;
          r1 = (if cores_old d \<noteq> cores_new d
                then (if cores_new d < cores_old d \<or> legacy d then True else r0) else r0);
          r2 = (if memory_old d \<noteq> memory_new d
                then (if memory_new d < memory_old d \<or> legacy d then True else r1) else r1)
      in if ipv4_old d \<noteq> ipv4_new d \<or> ipv6_old d \<noteq> ipv6_new d
            \<or> storage_old d \<noteq> storage_new d \<or> network_old d \<noteq> network_new d
         then True else r2)"

definition update_request :: "resource_data \<Rightarrow> ServerUpdateRequest" where
  "update_request d =
     \<lparr> upd_Name = name d, upd_AvailablityZone = availability_zone d,
       upd_Labels = labels d, upd_Cores = cores_new d, upd_Memory = memory_new d \<rparr>"

definition update_isoimage :: "client \<Rightarrow> resource_data \<Rightarrow> unit io" where
  "update_isoimage cl d =
     when_io (isoimage_old d \<noteq> isoimage_new d)
       (if isoimage_new d = [] then request cl (UnlinkIsoImage (res_id d) (isoimage_old d))
        else request cl (UnlinkIsoImage (res_id d) (isoimage_new d)))"

definition update_ip :: "client \<Rightarrow> string \<Rightarrow> string \<Rightarrow> string \<Rightarrow> unit io" where
  "update_ip cl sid oldIp newIp =
     when_io (oldIp \<noteq> newIp)
       (if newIp = [] then request cl (UnlinkIP sid oldIp)
        else request cl (LinkIP sid newIp))"

definition needsPublicNetwork :: "resource_data \<Rightarrow> bool" where
  "needsPublicNetwork d =
     (let n0 = True;
          n1 = (if ipv4_old d \<noteq> ipv4_new d \<and> ipv4_old d \<noteq> [] then False else n0);
          n2 = (if ipv6_old d \<noteq> ipv6_new d \<and> ipv6_old d \<noteq> [] then False else n1)
      in n2)"

definition unlink_public_network :: "client \<Rightarrow> resource_data \<Rightarrow> unit io" where
  "unlink_public_network cl d =
     when_io ((ipv6_old d \<noteq> ipv6_new d \<or> ipv4_old d \<noteq> ipv4_new d)
              \<and> ipv6_new d = [] \<and> ipv4_new d = [])
       (bind_io (get_network_public cl) (\<lambda>pub. request cl (UnlinkNetwork (res_id d) pub)))"

definition link_public_network :: "client \<Rightarrow> resource_data \<Rightarrow> unit io" where
  "link_public_network cl d =
     when_io ((ipv6_old d \<noteq> ipv6_new d \<or> ipv4_old d \<noteq> ipv4_new d) \<and> needsPublicNetwork d)
       (bind_io (get_network_public cl)
          (\<lambda>pub. request cl (LinkNetwork (res_id d) pub False)))"

definition unlink_network :: "client \<Rightarrow> string \<Rightarrow> relation \<Rightarrow> unit io" where
  "unlink_network cl sid n =
     when_io (object_uuid n \<noteq> []) (request cl (UnlinkNetwork sid (object_uuid n)))"

definition link_network :: "client \<Rightarrow> string \<Rightarrow> relation \<Rightarrow> unit io" where
  "link_network cl sid n =
     when_io (object_uuid n \<noteq> [])
       (request cl (LinkNetwork sid (object_uuid n) (bootdevice n)))"

definition update_networks :: "client \<Rightarrow> resource_data \<Rightarrow> unit io" where
  "update_networks cl d =
     when_io (network_old d \<noteq> network_new d)
       (steps [for_each (unlink_network cl (res_id d)) (network_old d),
               for_each (link_network cl (res_id d)) (network_new d)])"

text \<open>
  The inner loops over the other collection: they stop at the first equal \<^verbatim>\<open>object_uuid\<close>.
  Each run of an inner loop starts with the type assertion on the other value.
\<close>

fun uuid_found :: "string \<Rightarrow> relation list \<Rightarrow> bool" where
  "uuid_found u [] = False"
| "uuid_found u (s # ss) = (if u = object_uuid s then True else uuid_found u ss)"

definition unlink_storage :: "client \<Rightarrow> string \<Rightarrow> attr_value \<Rightarrow> relation \<Rightarrow> unit io" where
  "unlink_storage cl sid newStorages oldStorage =
     bind_io (assert_set newStorages) (\<lambda>news.
       let unlink = \<not> uuid_found (object_uuid oldStorage) news
       in when_io unlink (request cl (UnlinkStorage sid (object_uuid oldStorage))))"

definition link_storage :: "client \<Rightarrow> string \<Rightarrow> attr_value \<Rightarrow> relation \<Rightarrow> unit io" where
  "link_storage cl sid oldStorages newStorage =
     bind_io (assert_set oldStorages) (\<lambda>olds.
       let link = \<not> uuid_found (object_uuid newStorage) olds
       in when_io link
            (request cl (LinkStorage sid (object_uuid newStorage) (bootdevice newStorage))))"

definition update_storages :: "client \<Rightarrow> resource_data \<Rightarrow> unit io" where
  "update_storages cl d =
     when_io (storage_old d \<noteq> storage_new d)
       (steps
          [bind_io (assert_set (storage_old d))
             (for_each (unlink_storage cl (res_id d) (storage_new d))),
           bind_io (assert_set (storage_new d))
             (for_each (link_storage cl (res_id d) (storage_old d)))])"

definition update_power :: "client \<Rightarrow> resource_data \<Rightarrow> unit io" where
  "update_power cl d =
     (if power_attr d then request cl (StartServer (res_id d))
      else request cl (ShutdownServer (res_id d)))"

definition resourceGridscaleServerUpdate :: "client \<Rightarrow> resource_data \<Rightarrow> unit io" where
  "resourceGridscaleServerUpdate cl d =
     steps
       [when_io (shutdownRequired d) (request cl (ShutdownServer (res_id d))),
        request cl (UpdateServer (res_id d) (update_request d)),
        update_isoimage cl d,
        update_ip cl (res_id d) (ipv4_old d) (ipv4_new d),
        update_ip cl (res_id d) (ipv6_old d) (ipv6_new d),
        unlink_public_network cl d,
        link_public_network cl d,
        update_networks cl d,
        update_storages cl d,
        update_power cl d,
        resourceGridscaleServerRead cl d]"

section \<open>Auxiliary definitions for the statements\<close>

subsection \<open>Clients and inputs\<close>

text \<open>A client on which no call fails, as a predicate and as one concrete client.\<close>

definition all_ok :: "client \<Rightarrow> bool" where
  "all_ok cl = (\<forall>tr c. call_error cl tr c = None)"

definition ok_client :: client where
  "ok_client = \<lparr> call_error = (\<lambda>tr c. None), ip_version = (\<lambda>u. if u = ''ip6'' then 6 else 4),
      public_network_uuid = ''pub'', created_server_uuid = ''srv'' \<rparr>"

text \<open>A client on which exactly the start of the server \<open>''srv''\<close> fails.\<close>

definition start_fails :: client where
  "start_fails = ok_client \<lparr> call_error :=
      (\<lambda>tr c. if c = StartServer ''srv'' then Some (ClientError ''start'') else None) \<rparr>"

text \<open>
  A resource whose old and new values agree and whose storage values are slices, as the
  schema produces them; and a collection element.
\<close>

definition base_data :: resource_data where
  "base_data = \<lparr> res_id = ''srv'', name_old = ''web'', name = ''web'', location_uuid = ''loc'',
     availability_zone = ''az'', hardware_profile = ''default'', labels = [],
     legacy = False, power_attr = True, cores_old = 4, cores_new = 4,
     memory_old = 4, memory_new = 4, ipv4_old = [], ipv4_new = [],
     ipv6_old = [], ipv6_new = [], isoimage_old = [], isoimage_new = [],
     network_old = [], network_new = [],
     storage_old = ListValue [], storage_new = ListValue [] \<rparr>"

definition rel :: "string \<Rightarrow> bool \<Rightarrow> relation" where
  "rel u b = \<lparr> object_uuid = u, bootdevice = b, computed = [] \<rparr>"

text \<open>The panic of the type assertion on a slice.\<close>

definition assertion_panic :: error where
  "assertion_panic = Panic ''interface conversion: interface {} is []interface {}, not *schema.Set''"


subsection \<open>The calls of each step when no call fails\<close>

definition iso_calls :: "resource_data \<Rightarrow> call list" where
  "iso_calls d =
     (if isoimage_old d = isoimage_new d then []
      else if isoimage_new d = [] then [UnlinkIsoImage (res_id d) (isoimage_old d)]
      else [UnlinkIsoImage (res_id d) (isoimage_new d)])"

definition ip_calls :: "string \<Rightarrow> string \<Rightarrow> string \<Rightarrow> call list" where
  "ip_calls sid oldIp newIp =
     (if oldIp = newIp then [] else if newIp = [] then [UnlinkIP sid oldIp] else [LinkIP sid newIp])"

definition public_calls :: "client \<Rightarrow> resource_data \<Rightarrow> call list" where
  "public_calls cl d =
     (if (ipv4_old d \<noteq> ipv4_new d \<or> ipv6_old d \<noteq> ipv6_new d) \<and> ipv4_new d = [] \<and> ipv6_new d = []
      then [GetNetworkPublic, UnlinkNetwork (res_id d) (public_network_uuid cl)] else [])
     @ (if (ipv4_old d \<noteq> ipv4_new d \<or> ipv6_old d \<noteq> ipv6_new d) \<and> needsPublicNetwork d
      then [GetNetworkPublic, LinkNetwork (res_id d) (public_network_uuid cl) False] else [])"

definition network_calls :: "resource_data \<Rightarrow> call list" where
  "network_calls d =
     (if network_old d = network_new d then []
      else map (\<lambda>n. UnlinkNetwork (res_id d) (object_uuid n))
             (filter (\<lambda>n. object_uuid n \<noteq> []) (network_old d))
         @ map (\<lambda>n. LinkNetwork (res_id d) (object_uuid n) (bootdevice n))
             (filter (\<lambda>n. object_uuid n \<noteq> []) (network_new d)))"

text \<open>The calls of an update before the step on the storages, and those after it.\<close>

definition front_calls :: "client \<Rightarrow> resource_data \<Rightarrow> call list" where
  "front_calls cl d =
     (if shutdownRequired d then [ShutdownServer (res_id d)] else [])
     @ [UpdateServer (res_id d) (update_request d)]
     @ iso_calls d
     @ ip_calls (res_id d) (ipv4_old d) (ipv4_new d)
     @ ip_calls (res_id d) (ipv6_old d) (ipv6_new d)
     @ public_calls cl d
     @ network_calls d"

definition power_calls :: "resource_data \<Rightarrow> call list" where
  "power_calls d =
     [if power_attr d then StartServer (res_id d) else ShutdownServer (res_id d),
      GetServer (res_id d)]"

text \<open>The calls of the two loops over the storages, on the enumerations of two sets.\<close>

definition storage_calls :: "string \<Rightarrow> relation list \<Rightarrow> relation list \<Rightarrow> call list" where
  "storage_calls sid olds news =
     map (\<lambda>s. UnlinkStorage sid (object_uuid s))
       (filter (\<lambda>s. object_uuid s \<notin> object_uuid ` set news) olds)
     @ map (\<lambda>s. LinkStorage sid (object_uuid s) (bootdevice s))
       (filter (\<lambda>s. object_uuid s \<notin> object_uuid ` set olds) news)"

definition create_ips :: "resource_data \<Rightarrow> string list" where
  "create_ips d = (if ipv4_new d \<noteq> [] then [ipv4_new d] else [])
                  @ (if ipv6_new d \<noteq> [] then [ipv6_new d] else [])"

definition create_front :: "resource_data \<Rightarrow> call list" where
  "create_front d = map GetIPVersion (create_ips d)
                  @ (if create_ips d \<noteq> [] then [GetNetworkPublic] else [])"

definition create_pubnet :: "client \<Rightarrow> resource_data \<Rightarrow> (string \<times> bool) list" where
  "create_pubnet cl d = (if create_ips d \<noteq> [] then [(public_network_uuid cl, False)] else [])"

subsection \<open>Kinds of calls\<close>

fun is_ip_call :: "call \<Rightarrow> bool" where
  "is_ip_call (LinkIP sid u) = True"
| "is_ip_call (UnlinkIP sid u) = True"
| "is_ip_call c = False"

fun is_network_call :: "call \<Rightarrow> bool" where
  "is_network_call (LinkNetwork sid u b) = True"
| "is_network_call (UnlinkNetwork sid u) = True"
| "is_network_call c = False"

fun is_storage_call :: "call \<Rightarrow> bool" where
  "is_storage_call (LinkStorage sid u b) = True"
| "is_storage_call (UnlinkStorage sid u) = True"
| "is_storage_call c = False"



definition tail_call :: "call \<Rightarrow> bool" where
  "tail_call c =
     (is_storage_call c \<or> (\<exists>sid. c = StartServer sid \<or> c = ShutdownServer sid \<or> c = GetServer sid))"

text \<open>A procedure only appends calls, and every call it appends satisfies \<open>P\<close>.\<close>

definition emits :: "(call \<Rightarrow> bool) \<Rightarrow> 'a io \<Rightarrow> bool" where
  "emits P m = (\<forall>tr. \<exists>ys. snd (m tr) = tr @ ys \<and> (\<forall>c\<in>set ys. P c))"

section \<open>The procedures on a client without failures\<close>

lemma all_ok_ok_client: "all_ok ok_client"
  by (simp add: all_ok_def ok_client_def)

lemma when_io_apply: "when_io b m tr = (if b then m tr else (Inr (), tr))"
  by (simp add: when_io_def return_io_def)


lemma bind_io_ok: "m tr = (Inr x, tr1) \<Longrightarrow> bind_io m f tr = f x tr1"
  by (simp add: bind_io_def)

lemma bind_io_assoc: "bind_io (bind_io m f) g = bind_io m (\<lambda>x. bind_io (f x) g)"
  by (rule ext) (simp add: bind_io_def split: prod.splits sum.splits)

lemma bind_io_return: "bind_io (return_io x) f = f x"
  by (rule ext) (simp add: bind_io_def return_io_def)

lemma steps_append: "steps (ms @ ns) = bind_io (steps ms) (\<lambda>_. steps ns)"
  by (induction ms) (simp_all add: bind_io_return bind_io_assoc)

lemma request_ok: "all_ok cl \<Longrightarrow> request cl c tr = (Inr (), tr @ [c])"
  by (simp add: request_def all_ok_def)

lemma get_network_public_ok:
  "all_ok cl \<Longrightarrow> get_network_public cl tr = (Inr (public_network_uuid cl), tr @ [GetNetworkPublic])"
  by (simp add: get_network_public_def all_ok_def)

lemma read_ok: "all_ok cl \<Longrightarrow> resourceGridscaleServerRead cl d tr = (Inr (), tr @ [GetServer (res_id d)])"
  by (simp add: resourceGridscaleServerRead_def all_ok_def)

lemma for_each_ok:
  "all_ok cl \<Longrightarrow>
   for_each (\<lambda>x. when_io (P x) (request cl (f x))) xs tr = (Inr (), tr @ map f (filter P xs))"
  by (induction xs arbitrary: tr)
     (simp_all add: return_io_def bind_io_def when_io_apply request_ok)

lemma uuid_found_iff: "uuid_found u ss \<longleftrightarrow> u \<in> object_uuid ` set ss"
  by (induction ss) auto


lemma assert_set_SetValue: "assert_set (SetValue xs) = return_io xs"
  by (simp add: assert_set_def)

lemma assert_set_ListValue: "assert_set (ListValue xs) tr = (Inl assertion_panic, tr)"
  by (simp add: assert_set_def assertion_panic_def fail_io_def)

lemma iso_ok: "all_ok cl \<Longrightarrow> update_isoimage cl d tr = (Inr (), tr @ iso_calls d)"
  by (simp add: update_isoimage_def iso_calls_def when_io_apply return_io_def request_ok)

lemma ip_ok: "all_ok cl \<Longrightarrow> update_ip cl sid a b tr = (Inr (), tr @ ip_calls sid a b)"
  by (simp add: update_ip_def ip_calls_def when_io_apply return_io_def request_ok)

lemma unlink_public_ok:
  "all_ok cl \<Longrightarrow> unlink_public_network cl d tr =
    (Inr (), tr @ (if (ipv4_old d \<noteq> ipv4_new d \<or> ipv6_old d \<noteq> ipv6_new d) \<and> ipv4_new d = [] \<and> ipv6_new d = []
      then [GetNetworkPublic, UnlinkNetwork (res_id d) (public_network_uuid cl)] else []))"
  by (auto simp add: unlink_public_network_def when_io_apply return_io_def bind_io_def
        get_network_public_ok request_ok)

lemma link_public_ok:
  "all_ok cl \<Longrightarrow> link_public_network cl d tr =
    (Inr (), tr @ (if (ipv4_old d \<noteq> ipv4_new d \<or> ipv6_old d \<noteq> ipv6_new d) \<and> needsPublicNetwork d
      then [GetNetworkPublic, LinkNetwork (res_id d) (public_network_uuid cl) False] else []))"
  by (auto simp add: link_public_network_def when_io_apply return_io_def bind_io_def
        get_network_public_ok request_ok)

lemma unlink_network_fun:
  "unlink_network cl sid =
     (\<lambda>n. when_io (object_uuid n \<noteq> []) (request cl (UnlinkNetwork sid (object_uuid n))))"
  by (rule ext) (simp add: unlink_network_def)

lemma link_network_fun:
  "link_network cl sid =
     (\<lambda>n. when_io (object_uuid n \<noteq> [])
            (request cl (LinkNetwork sid (object_uuid n) (bootdevice n))))"
  by (rule ext) (simp add: link_network_def)

lemma networks_ok: "all_ok cl \<Longrightarrow> update_networks cl d tr = (Inr (), tr @ network_calls d)"
  by (simp add: update_networks_def network_calls_def when_io_apply return_io_def bind_io_def
        unlink_network_fun link_network_fun for_each_ok)

lemma power_read_ok:
  "all_ok cl \<Longrightarrow>
   steps [update_power cl d, resourceGridscaleServerRead cl d] tr = (Inr (), tr @ power_calls d)"
  by (simp add: update_power_def request_ok read_ok bind_io_def return_io_def power_calls_def)

lemma update_front_ok:
  "all_ok cl \<Longrightarrow>
   steps [when_io (shutdownRequired d) (request cl (ShutdownServer (res_id d))),
          request cl (UpdateServer (res_id d) (update_request d)),
          update_isoimage cl d,
          update_ip cl (res_id d) (ipv4_old d) (ipv4_new d),
          update_ip cl (res_id d) (ipv6_old d) (ipv6_new d),
          unlink_public_network cl d,
          link_public_network cl d,
          update_networks cl d] tr
   = (Inr (), tr @ front_calls cl d)"
  by (simp add: front_calls_def public_calls_def bind_io_def when_io_apply return_io_def
        request_ok iso_ok ip_ok unlink_public_ok link_public_ok networks_ok)

lemma update_split:
  "resourceGridscaleServerUpdate cl d =
   bind_io
     (steps [when_io (shutdownRequired d) (request cl (ShutdownServer (res_id d))),
          request cl (UpdateServer (res_id d) (update_request d)),
          update_isoimage cl d,
          update_ip cl (res_id d) (ipv4_old d) (ipv4_new d),
          update_ip cl (res_id d) (ipv6_old d) (ipv6_new d),
          unlink_public_network cl d,
          link_public_network cl d,
          update_networks cl d])
     (\<lambda>_. bind_io (update_storages cl d)
        (\<lambda>_. steps [update_power cl d, resourceGridscaleServerRead cl d]))"
proof -
  have "resourceGridscaleServerUpdate cl d =
    steps ([when_io (shutdownRequired d) (request cl (ShutdownServer (res_id d))),
          request cl (UpdateServer (res_id d) (update_request d)),
          update_isoimage cl d,
          update_ip cl (res_id d) (ipv4_old d) (ipv4_new d),
          update_ip cl (res_id d) (ipv6_old d) (ipv6_new d),
          unlink_public_network cl d,
          link_public_network cl d,
          update_networks cl d]
         @ [update_storages cl d, update_power cl d, resourceGridscaleServerRead cl d])"
    by (simp add: resourceGridscaleServerUpdate_def)
  also have "\<dots> = bind_io
     (steps [when_io (shutdownRequired d) (request cl (ShutdownServer (res_id d))),
          request cl (UpdateServer (res_id d) (update_request d)),
          update_isoimage cl d,
          update_ip cl (res_id d) (ipv4_old d) (ipv4_new d),
          update_ip cl (res_id d) (ipv6_old d) (ipv6_new d),
          unlink_public_network cl d,
          link_public_network cl d,
          update_networks cl d])
     (\<lambda>_. steps [update_storages cl d, update_power cl d, resourceGridscaleServerRead cl d])"
    by (rule steps_append)
  finally show ?thesis by simp
qed

lemma update_after_front:
  "all_ok cl \<Longrightarrow>
   resourceGridscaleServerUpdate cl d tr =
   bind_io (update_storages cl d)
     (\<lambda>_. steps [update_power cl d, resourceGridscaleServerRead cl d]) (tr @ front_calls cl d)"
  by (subst update_split) (simp only: bind_io_ok [OF update_front_ok])

lemma emitsD:
  "emits P m \<Longrightarrow> m tr = (r, tr') \<Longrightarrow> \<exists>ys. tr' = tr @ ys \<and> (\<forall>c\<in>set ys. P c)"
  unfolding emits_def by (metis snd_conv)

lemma emits_return: "emits P (return_io x)"
  by (simp add: emits_def return_io_def)

lemma emits_fail: "emits P (fail_io e)"
  by (simp add: emits_def fail_io_def)

lemma emits_bind:
  assumes m: "emits P m" and f: "\<And>x. emits P (f x)"
  shows "emits P (bind_io m f)"
  unfolding emits_def
proof
  fix tr
  obtain r tr1 where mt: "m tr = (r, tr1)" by (cases "m tr")
  from emitsD [OF m mt] obtain ys where ys: "tr1 = tr @ ys" "\<forall>c\<in>set ys. P c" by blast
  show "\<exists>zs. snd (bind_io m f tr) = tr @ zs \<and> (\<forall>c\<in>set zs. P c)"
  proof (cases r)
    case (Inl e)
    with mt ys show ?thesis by (auto simp add: bind_io_def)
  next
    case (Inr x)
    obtain q tr2 where ft: "f x tr1 = (q, tr2)" by (cases "f x tr1")
    from emitsD [OF f ft] obtain ws where ws: "tr2 = tr1 @ ws" "\<forall>c\<in>set ws. P c" by blast
    from Inr mt ft have "snd (bind_io m f tr) = tr2" by (simp add: bind_io_def)
    with ys ws have "snd (bind_io m f tr) = tr @ (ys @ ws) \<and> (\<forall>c\<in>set (ys @ ws). P c)"
      by auto
    then show ?thesis by blast
  qed
qed

lemma emits_when: "emits P m \<Longrightarrow> emits P (when_io b m)"
  by (simp add: when_io_def emits_return)

lemma emits_request: "P c \<Longrightarrow> emits P (request cl c)"
  by (simp add: emits_def request_def)


lemma emits_for_each: "(\<And>x. emits P (f x)) \<Longrightarrow> emits P (for_each f xs)"
  by (induction xs) (simp_all add: emits_return emits_bind)

lemma emits_steps: "(\<And>m. m \<in> set ms \<Longrightarrow> emits P m) \<Longrightarrow> emits P (steps ms)"
  by (induction ms) (simp_all add: emits_return emits_bind)

lemma emits_assert_set: "emits P (assert_set v)"
  by (cases v) (simp_all add: assert_set_def emits_return emits_fail)

subsection \<open>The update from the step on the storages on\<close>

lemma emits_unlink_storage: "emits tail_call (unlink_storage cl sid v s)"
  unfolding unlink_storage_def Let_def
  by (intro emits_bind emits_assert_set emits_when emits_request) (simp add: tail_call_def)

lemma emits_link_storage: "emits tail_call (link_storage cl sid v s)"
  unfolding link_storage_def Let_def
  by (intro emits_bind emits_assert_set emits_when emits_request) (simp add: tail_call_def)

lemma emits_update_storages: "emits tail_call (update_storages cl d)"
  unfolding update_storages_def
  by (intro emits_when emits_steps)
     (auto intro!: emits_bind emits_assert_set emits_for_each emits_unlink_storage
        emits_link_storage)

lemma emits_update_power: "emits tail_call (update_power cl d)"
  by (simp add: update_power_def emits_request tail_call_def)

lemma emits_read_tail: "emits tail_call (resourceGridscaleServerRead cl d)"
  by (simp add: emits_def resourceGridscaleServerRead_def tail_call_def)

lemma emits_update_tail:
  "emits tail_call (bind_io (update_storages cl d)
     (\<lambda>_. steps [update_power cl d, resourceGridscaleServerRead cl d]))"
  by (intro emits_bind emits_update_storages emits_steps)
     (auto simp add: emits_update_power emits_read_tail)

lemma update_calls_split:
  assumes "all_ok cl"
  shows "\<exists>ys. calls_issued (resourceGridscaleServerUpdate cl d) = front_calls cl d @ ys
           \<and> (\<forall>c\<in>set ys. tail_call c)"
proof -
  obtain r tr' where res: "bind_io (update_storages cl d)
     (\<lambda>_. steps [update_power cl d, resourceGridscaleServerRead cl d]) ([] @ front_calls cl d)
     = (r, tr')"
    by (cases "bind_io (update_storages cl d)
     (\<lambda>_. steps [update_power cl d, resourceGridscaleServerRead cl d]) ([] @ front_calls cl d)")
  from emitsD [OF emits_update_tail res] obtain ys where
    "tr' = ([] @ front_calls cl d) @ ys" "\<forall>c\<in>set ys. tail_call c" by blast
  with res show ?thesis
    by (simp add: calls_issued_def update_after_front [OF assms])
qed

lemma update_storage_unchanged:
  assumes "all_ok cl" and "storage_old d = storage_new d"
  shows "resourceGridscaleServerUpdate cl d tr = (Inr (), tr @ front_calls cl d @ power_calls d)"
  using assms
  by (simp add: update_after_front update_storages_def when_io_apply bind_io_def
        power_read_ok del: steps.simps)

lemma update_storage_list_panics:
  assumes "all_ok cl" and "storage_old d \<noteq> storage_new d" and "storage_old d = ListValue olds"
  shows "resourceGridscaleServerUpdate cl d tr = (Inl assertion_panic, tr @ front_calls cl d)"
  using assms
  by (simp add: update_after_front update_storages_def when_io_apply bind_io_def
        assert_set_ListValue)

lemma unlink_storage_set_fun:
  "unlink_storage cl sid (SetValue news) =
     (\<lambda>s. when_io (object_uuid s \<notin> object_uuid ` set news)
            (request cl (UnlinkStorage sid (object_uuid s))))"
  by (rule ext) (simp add: unlink_storage_def assert_set_SetValue bind_io_return uuid_found_iff)

lemma link_storage_set_fun:
  "link_storage cl sid (SetValue olds) =
     (\<lambda>s. when_io (object_uuid s \<notin> object_uuid ` set olds)
            (request cl (LinkStorage sid (object_uuid s) (bootdevice s))))"
  by (rule ext) (simp add: link_storage_def assert_set_SetValue bind_io_return uuid_found_iff)

lemma update_storage_sets:
  assumes "all_ok cl" and "storage_old d = SetValue olds" and "storage_new d = SetValue news"
  shows "resourceGridscaleServerUpdate cl d tr =
     (Inr (), tr @ front_calls cl d @ storage_calls (res_id d) olds news @ power_calls d)"
proof (cases "olds = news")
  case True
  with assms show ?thesis
    by (simp add: update_storage_unchanged storage_calls_def)
next
  case False
  have st: "update_storages cl d t = (Inr (), t @ storage_calls (res_id d) olds news)" for t
    using assms False
    by (simp add: update_storages_def when_io_apply assert_set_SetValue bind_io_return
          unlink_storage_set_fun link_storage_set_fun for_each_ok bind_io_def return_io_def
          storage_calls_def)
  show ?thesis
    by (simp add: update_after_front [OF assms(1)] bind_io_ok [OF st] power_read_ok [OF assms(1)]
          del: steps.simps)
qed

subsection \<open>Creation\<close>
















lemma create_storage_list_panics:
  assumes "storage_new d = ListValue xs" and "xs \<noteq> []"
  shows "resourceGridscaleServerCreate cl d tr = (Inl assertion_panic, tr)"
  using assms
  by (simp add: resourceGridscaleServerCreate_def build_request_def create_boot_storages_def
        bind_io_def assert_set_ListValue)

lemma build_request_ok:
  assumes "ipv4_new d = [] \<or> ip_version cl (ipv4_new d) = 4"
    and "ipv6_new d = [] \<or> ip_version cl (ipv6_new d) = 6"
    and "\<forall>tr. call_error cl tr GetNetworkPublic = None"
    and "storage_new d = SetValue xs \<or> (storage_new d = ListValue xs \<and> xs = [])"
  shows "build_request cl d tr =
     (Inr ((create_request d (create_ips d) (create_pubnet cl d))
             \<lparr>Storages := create_storages xs\<rparr>), tr @ create_front d)"
  using assms
  by (auto simp add: build_request_def create_boot_storages_def assert_set_def create_ip_def
        create_public_network_def bind_io_def
        get_ip_version_def get_network_public_def return_io_def fail_io_def create_ips_def
        create_front_def create_pubnet_def)

lemma link_rest_fun:
  "link_rest cl sid =
     (\<lambda>s. when_io (\<not> bootdevice s) (request cl (LinkStorage sid (object_uuid s) (bootdevice s))))"
  by (rule ext) (simp add: link_rest_def)

lemma after_create_ok:
  assumes "all_ok cl"
    and "storage_new d = SetValue xs \<or> (storage_new d = ListValue xs \<and> xs = [])"
  shows "after_create cl d sid tr =
     (Inr (), tr @ map (\<lambda>s. LinkStorage sid (object_uuid s) (bootdevice s))
                     (filter (\<lambda>s. \<not> bootdevice s) xs)
                 @ (if power_attr d then [StartServer sid] else [])
                 @ [GetServer sid])"
  using assms
  by (auto simp add: after_create_def link_rest_storages_def assert_set_SetValue bind_io_return
        link_rest_fun for_each_ok bind_io_def when_io_apply
        request_unchecked_def read_ok return_io_def)

lemma create_ok:
  assumes "all_ok cl"
    and "ipv4_new d = [] \<or> ip_version cl (ipv4_new d) = 4"
    and "ipv6_new d = [] \<or> ip_version cl (ipv6_new d) = 6"
    and "storage_new d = SetValue xs \<or> (storage_new d = ListValue xs \<and> xs = [])"
  shows "resourceGridscaleServerCreate cl d tr =
     (Inr (), tr @ create_front d
        @ [CreateServer ((create_request d (create_ips d) (create_pubnet cl d))
                           \<lparr>Storages := create_storages xs\<rparr>)]
        @ map (\<lambda>s. LinkStorage (created_server_uuid cl) (object_uuid s) (bootdevice s))
            (filter (\<lambda>s. \<not> bootdevice s) xs)
        @ (if power_attr d then [StartServer (created_server_uuid cl)] else [])
        @ [GetServer (created_server_uuid cl)])"
proof -
  from assms(1) have pub: "\<forall>tr. call_error cl tr GetNetworkPublic = None"
    by (simp add: all_ok_def)
  from assms(1) have cs: "\<And>rb t. create_server cl rb t = (Inr (created_server_uuid cl), t @ [CreateServer rb])"
    by (simp add: create_server_def all_ok_def)
  show ?thesis
    by (simp add: resourceGridscaleServerCreate_def bind_io_def
          build_request_ok [OF assms(2) assms(3) pub assms(4)] cs
          after_create_ok [OF assms(1) assms(4)])
qed

subsection \<open>Calls by kind\<close>

lemma tail_call_not_ip: "tail_call c \<Longrightarrow> \<not> is_ip_call c"
  by (cases c) (auto simp add: tail_call_def)


lemma filter_front_calls:
  "filter is_ip_call (front_calls cl d)
     = ip_calls (res_id d) (ipv4_old d) (ipv4_new d) @ ip_calls (res_id d) (ipv6_old d) (ipv6_new d)"
  "filter is_network_call (front_calls cl d)
     = filter is_network_call (public_calls cl d) @ network_calls d"
  "filter is_storage_call (front_calls cl d) = []"
  by (simp_all add: front_calls_def ip_calls_def iso_calls_def public_calls_def network_calls_def
        filter_map comp_def)

lemma filter_power_calls:
  "filter is_storage_call (power_calls d) = []"
  by (simp add: power_calls_def)

lemma filter_storage_calls:
  "filter is_storage_call (storage_calls sid olds news) = storage_calls sid olds news"
  by (simp add: storage_calls_def filter_map comp_def)

lemma update_calls_issued:
  "all_ok cl \<Longrightarrow> storage_old d = storage_new d \<Longrightarrow>
   calls_issued (resourceGridscaleServerUpdate cl d) = front_calls cl d @ power_calls d"
  by (simp add: calls_issued_def update_storage_unchanged)

lemma update_ip_filter:
  assumes "all_ok cl"
  shows "filter is_ip_call (calls_issued (resourceGridscaleServerUpdate cl d))
     = ip_calls (res_id d) (ipv4_old d) (ipv4_new d) @ ip_calls (res_id d) (ipv6_old d) (ipv6_new d)"
proof -
  from update_calls_split [OF assms, of d] obtain ys where
    c: "calls_issued (resourceGridscaleServerUpdate cl d) = front_calls cl d @ ys"
    and t: "\<forall>c\<in>set ys. tail_call c" by blast
  from t have "filter is_ip_call ys = []"
    by (auto simp add: filter_empty_conv dest: tail_call_not_ip)
  with c show ?thesis by (simp add: filter_front_calls)
qed


lemma update_first_call:
  assumes "all_ok cl"
  shows "hd (calls_issued (resourceGridscaleServerUpdate cl d))
     = (if shutdownRequired d then ShutdownServer (res_id d)
        else UpdateServer (res_id d) (update_request d))"
proof -
  from update_calls_split [OF assms, of d] obtain ys where
    c: "calls_issued (resourceGridscaleServerUpdate cl d) = front_calls cl d @ ys" by blast
  then show ?thesis by (simp add: front_calls_def)
qed

lemmas ok_eval = front_calls_def power_calls_def iso_calls_def ip_calls_def public_calls_def
  network_calls_def shutdownRequired_def needsPublicNetwork_def update_request_def base_data_def
  rel_def ok_client_def Let_def

section \<open>The loops over the storages behind the type assertion\<close>

text \<open>
  The loops are embedded as they are written. On values that pass the assertion, that is on
  sets, the update computes the difference of the two collections by \<^verbatim>\<open>object_uuid\<close>, and the
  creation sends the boot storage with the request and links the others afterwards. The
  schema produces no such value for \<^verbatim>\<open>storage\<close>; the two lemmas say what the loops are written
  to do.
\<close>

lemma update_storage_diff_on_sets:
  assumes "all_ok cl" and "storage_old d = SetValue olds" and "storage_new d = SetValue news"
  shows "filter is_storage_call (calls_issued (resourceGridscaleServerUpdate cl d))
     = map (\<lambda>s. UnlinkStorage (res_id d) (object_uuid s))
         (filter (\<lambda>s. object_uuid s \<notin> object_uuid ` set news) olds)
     @ map (\<lambda>s. LinkStorage (res_id d) (object_uuid s) (bootdevice s))
         (filter (\<lambda>s. object_uuid s \<notin> object_uuid ` set olds) news)"
  using assms
  by (simp add: calls_issued_def update_storage_sets filter_front_calls filter_power_calls
        filter_storage_calls)
     (simp add: storage_calls_def)

lemma create_on_storage_set:
  assumes "all_ok cl"
    and "ipv4_new d = [] \<or> ip_version cl (ipv4_new d) = 4"
    and "ipv6_new d = [] \<or> ip_version cl (ipv6_new d) = 6"
    and "storage_new d = SetValue
      [\<lparr>object_uuid = s1, bootdevice = True, computed = c1\<rparr>,
       \<lparr>object_uuid = s2, bootdevice = False, computed = c2\<rparr>,
       \<lparr>object_uuid = s3, bootdevice = False, computed = c3\<rparr>]"
  shows "calls_issued (resourceGridscaleServerCreate cl d)
     = create_front d
       @ [CreateServer ((create_request d (create_ips d) (create_pubnet cl d))
                          \<lparr>Storages := [(s1, True)]\<rparr>),
          LinkStorage (created_server_uuid cl) s2 False,
          LinkStorage (created_server_uuid cl) s3 False]
       @ (if power_attr d then [StartServer (created_server_uuid cl)] else [])
       @ [GetServer (created_server_uuid cl)]"
  using create_ok [OF assms(1) assms(2) assms(3) disjI1 [OF assms(4)], of "[]"]
  by (simp add: calls_issued_def)

section \<open>The claims\<close>




text \<open>
  C2. An update that adds the ISO image \<open>''iso1''\<close> to a server without one must link it.
  The code calls \<^verbatim>\<open>UnlinkIsoImage\<close> on the new image in the branch for a non-empty new value, and
  \<^verbatim>\<open>LinkIsoImage\<close> nowhere: these are all the calls of that update.
\<close>

theorem update_isoimage_issues_unlink_for_new_image:
  "calls_issued (resourceGridscaleServerUpdate ok_client (base_data\<lparr>isoimage_new := ''iso1''\<rparr>))
     = [UpdateServer ''srv'' \<lparr> upd_Name = ''web'', upd_AvailablityZone = ''az'',
          upd_Labels = [], upd_Cores = 4, upd_Memory = 4 \<rparr>,
        UnlinkIsoImage ''srv'' ''iso1'', StartServer ''srv'', GetServer ''srv'']"
  using update_calls_issued [OF all_ok_ok_client, of "base_data\<lparr>isoimage_new := ''iso1''\<rparr>"]
  by (simp add: ok_eval)

text \<open>
  C3, as stated, fails. When the IPv4 address \<open>''A''\<close> is replaced by \<open>''B''\<close>, the only call on an
  address is the link of \<open>''B''\<close>; \<open>''A''\<close> is not unlinked.
\<close>

theorem update_ip_replaced_counterexample:
  "ipv4_old (base_data\<lparr>ipv4_old := ''A'', ipv4_new := ''B''\<rparr>)
     \<noteq> ipv4_new (base_data\<lparr>ipv4_old := ''A'', ipv4_new := ''B''\<rparr>)
   \<and> UnlinkIP ''srv'' ''A'' \<notin> set (calls_issued (resourceGridscaleServerUpdate ok_client
        (base_data\<lparr>ipv4_old := ''A'', ipv4_new := ''B''\<rparr>)))
   \<and> filter is_ip_call (calls_issued (resourceGridscaleServerUpdate ok_client
        (base_data\<lparr>ipv4_old := ''A'', ipv4_new := ''B''\<rparr>))) = [LinkIP ''srv'' ''B'']"
  using update_calls_issued [OF all_ok_ok_client,
      of "base_data\<lparr>ipv4_old := ''A'', ipv4_new := ''B''\<rparr>"]
  by (simp add: ok_eval)

text \<open>
  C3 (amended). For each family independently, when its address changed the update issues
  exactly one call on an address: \<^verbatim>\<open>UnlinkIP\<close> of the old address if the new one is empty,
  otherwise \<^verbatim>\<open>LinkIP\<close> of the new address alone, with no unlink of a previous address. The
  family IPv4 comes first. (No call fails.)
\<close>

theorem update_ip_calls_per_family:
  assumes "all_ok cl"
  shows "filter is_ip_call (calls_issued (resourceGridscaleServerUpdate cl d))
     = (if ipv4_old d = ipv4_new d then []
        else if ipv4_new d = [] then [UnlinkIP (res_id d) (ipv4_old d)]
        else [LinkIP (res_id d) (ipv4_new d)])
     @ (if ipv6_old d = ipv6_new d then []
        else if ipv6_new d = [] then [UnlinkIP (res_id d) (ipv6_old d)]
        else [LinkIP (res_id d) (ipv6_new d)])"
  using update_ip_filter [OF assms, of d] by (simp add: ip_calls_def)

text \<open>The amended C3 when IPv4 is replaced and IPv6 is removed.\<close>

theorem update_ip_calls_per_family_witness:
  "filter is_ip_call (calls_issued (resourceGridscaleServerUpdate ok_client
      (base_data\<lparr>ipv4_old := ''A'', ipv4_new := ''B'', ipv6_old := ''X''\<rparr>)))
     = [LinkIP ''srv'' ''B'', UnlinkIP ''srv'' ''X'']"
  using update_ip_calls_per_family [OF all_ok_ok_client,
      of "base_data\<lparr>ipv4_old := ''A'', ipv4_new := ''B'', ipv6_old := ''X''\<rparr>"]
  by (simp add: base_data_def)




text \<open>
  C5, as stated, fails. On a legacy server whose name changed and nothing else, an attribute
  change is present, the classification is false and the update issues no shutdown: the
  classification reads the legacy attribute only where cores or memory changed.
\<close>

theorem shutdownRequired_legacy_rename_counterexample:
  "legacy (base_data\<lparr>legacy := True, name := ''renamed''\<rparr>)
   \<and> name_old (base_data\<lparr>legacy := True, name := ''renamed''\<rparr>)
       \<noteq> name (base_data\<lparr>legacy := True, name := ''renamed''\<rparr>)
   \<and> \<not> shutdownRequired (base_data\<lparr>legacy := True, name := ''renamed''\<rparr>)
   \<and> calls_issued (resourceGridscaleServerUpdate ok_client
        (base_data\<lparr>legacy := True, name := ''renamed''\<rparr>))
     = [UpdateServer ''srv'' \<lparr> upd_Name = ''renamed'', upd_AvailablityZone = ''az'',
          upd_Labels = [], upd_Cores = 4, upd_Memory = 4 \<rparr>,
        StartServer ''srv'', GetServer ''srv'']"
  using update_calls_issued [OF all_ok_ok_client,
      of "base_data\<lparr>legacy := True, name := ''renamed''\<rparr>"]
  by (simp add: ok_eval)

text \<open>
  C5 (amended). The classification \<open>shutdownRequired\<close> is true exactly when the new number of
  cores is below the old one, or the new memory is below the old one, or the server is legacy
  and cores or memory changed (an increase too), or IPv4, IPv6, the storages or the networks
  changed. In particular 4 to 2 cores gives true, and 4 to 8 GB of memory on a server that is
  not legacy, with nothing else changed, gives false. The update starts with
  \<^verbatim>\<open>ShutdownServer\<close> exactly when the classification is true. A change of name, labels or
  availability zone does not enter the classification, on a legacy server or another.
  Here "legacy" is the attribute \<^verbatim>\<open>legacy\<close> that the function reads.
\<close>

theorem shutdownRequired_iff:
  "(shutdownRequired d \<longleftrightarrow>
      cores_new d < cores_old d \<or> memory_new d < memory_old d
      \<or> (legacy d \<and> (cores_old d \<noteq> cores_new d \<or> memory_old d \<noteq> memory_new d))
      \<or> ipv4_old d \<noteq> ipv4_new d \<or> ipv6_old d \<noteq> ipv6_new d
      \<or> storage_old d \<noteq> storage_new d \<or> network_old d \<noteq> network_new d)
   \<and> (cores_old d = 4 \<and> cores_new d = 2 \<longrightarrow> shutdownRequired d)
   \<and> (\<not> legacy d \<and> memory_old d = 4 \<and> memory_new d = 8 \<and> cores_old d = cores_new d
        \<and> ipv4_old d = ipv4_new d \<and> ipv6_old d = ipv6_new d
        \<and> storage_old d = storage_new d \<and> network_old d = network_new d
      \<longrightarrow> \<not> shutdownRequired d)
   \<and> (all_ok cl \<longrightarrow>
        (hd (calls_issued (resourceGridscaleServerUpdate cl d)) = ShutdownServer (res_id d))
          = shutdownRequired d)"
proof -
  have a: "shutdownRequired d \<longleftrightarrow>
      cores_new d < cores_old d \<or> memory_new d < memory_old d
      \<or> (legacy d \<and> (cores_old d \<noteq> cores_new d \<or> memory_old d \<noteq> memory_new d))
      \<or> ipv4_old d \<noteq> ipv4_new d \<or> ipv6_old d \<noteq> ipv6_new d
      \<or> storage_old d \<noteq> storage_new d \<or> network_old d \<noteq> network_new d"
    unfolding shutdownRequired_def Let_def by auto
  have b: "all_ok cl \<longrightarrow>
        (hd (calls_issued (resourceGridscaleServerUpdate cl d)) = ShutdownServer (res_id d))
          = shutdownRequired d"
    by (simp add: update_first_call)
  from a b show ?thesis by auto
qed

text \<open>The amended C5 at the two inputs that the claim names.\<close>

theorem shutdownRequired_iff_witness:
  "shutdownRequired (base_data\<lparr>cores_new := 2\<rparr>)
   \<and> \<not> shutdownRequired (base_data\<lparr>memory_new := 8\<rparr>)
   \<and> hd (calls_issued (resourceGridscaleServerUpdate ok_client (base_data\<lparr>cores_new := 2\<rparr>)))
       = ShutdownServer ''srv''"
  using shutdownRequired_iff [of "base_data\<lparr>cores_new := 2\<rparr>" ok_client]
    shutdownRequired_iff [of "base_data\<lparr>memory_new := 8\<rparr>" ok_client] all_ok_ok_client
  by (simp add: base_data_def)




text \<open>
  C7, as stated, fails. Old and new values agree and the update still starts the server: the
  step for the power state is not conditional.
\<close>

theorem update_converged_counterexample:
  "update_request base_data = \<lparr> upd_Name = ''web'', upd_AvailablityZone = ''az'',
        upd_Labels = [], upd_Cores = 4, upd_Memory = 4 \<rparr>
   \<and> calls_issued (resourceGridscaleServerUpdate ok_client base_data)
     = [UpdateServer ''srv'' (update_request base_data), StartServer ''srv'', GetServer ''srv'']
   \<and> StartServer ''srv'' \<in> set (calls_issued (resourceGridscaleServerUpdate ok_client base_data))"
  using update_calls_issued [OF all_ok_ok_client, of base_data]
  by (simp add: ok_eval)

text \<open>
  C7 (amended). When old and new values agree, the update issues no call that links or
  unlinks and no shutdown before the update request: its calls are \<^verbatim>\<open>UpdateServer\<close>, then the
  step for the power state (\<^verbatim>\<open>StartServer\<close> if \<^verbatim>\<open>power\<close> is set, \<^verbatim>\<open>ShutdownServer\<close> otherwise), then
  the read of the server. (No call fails.)
\<close>

theorem update_converged_calls:
  assumes "all_ok cl"
    and "cores_old d = cores_new d" and "memory_old d = memory_new d"
    and "ipv4_old d = ipv4_new d" and "ipv6_old d = ipv6_new d"
    and "isoimage_old d = isoimage_new d"
    and "network_old d = network_new d" and "storage_old d = storage_new d"
  shows "calls_issued (resourceGridscaleServerUpdate cl d)
     = [UpdateServer (res_id d) (update_request d),
        if power_attr d then StartServer (res_id d) else ShutdownServer (res_id d),
        GetServer (res_id d)]"
  using assms
  by (simp add: update_calls_issued front_calls_def power_calls_def iso_calls_def ip_calls_def
        public_calls_def network_calls_def shutdownRequired_def Let_def)

text \<open>The amended C7 for a server that is to stay off.\<close>

theorem update_converged_calls_witness:
  "calls_issued (resourceGridscaleServerUpdate ok_client (base_data\<lparr>power_attr := False\<rparr>))
     = [UpdateServer ''srv'' (update_request (base_data\<lparr>power_attr := False\<rparr>)),
        ShutdownServer ''srv'', GetServer ''srv'']"
  using update_converged_calls [OF all_ok_ok_client, of "base_data\<lparr>power_attr := False\<rparr>"]
  by (simp add: base_data_def)

text \<open>
  C8. On a client whose \<^verbatim>\<open>StartServer\<close> fails, creation with \<^verbatim>\<open>power\<close> set issues the start,
  drops its error, goes on to read the server and returns no error. The update function on
  the same client returns the error of the start.
\<close>

theorem create_drops_start_error:
  "call_error start_fails
      [CreateServer (create_request base_data [] [])] (StartServer ''srv'')
      = Some (ClientError ''start'')
   \<and> calls_issued (resourceGridscaleServerCreate start_fails base_data)
      = [CreateServer (create_request base_data [] []), StartServer ''srv'', GetServer ''srv'']
   \<and> outcome (resourceGridscaleServerCreate start_fails base_data) = Inr ()
   \<and> outcome (resourceGridscaleServerUpdate start_fails base_data) = Inl (ClientError ''start'')"
  by (simp add: calls_issued_def outcome_def resourceGridscaleServerCreate_def build_request_def
        after_create_def create_boot_storages_def link_rest_storages_def create_ip_def create_public_network_def create_server_def
        resourceGridscaleServerRead_def request_unchecked_def bind_io_def return_io_def
        when_io_apply start_fails_def ok_client_def base_data_def
        resourceGridscaleServerUpdate_def request_def shutdownRequired_def update_isoimage_def
        update_ip_def unlink_public_network_def link_public_network_def update_networks_def
        update_storages_def update_power_def create_request_def needsPublicNetwork_def Let_def)

text \<open>
  C9. For the storages \<open>[boot S1, S2, S3]\<close> the creation call must carry \<open>S1\<close> alone, and the
  links of \<open>S2\<close> and \<open>S3\<close> must follow it. The schema declares \<^verbatim>\<open>storage\<close> as a list and the
  first loop asserts a set: on this input the create path panics at the assertion and issues
  no call at all, neither the creation nor a link nor the start.
\<close>

theorem create_panics_on_storage_list:
  "schema_conform
      (base_data\<lparr>storage_new := ListValue [rel ''S1'' True, rel ''S2'' False, rel ''S3'' False]\<rparr>)
   \<and> outcome (resourceGridscaleServerCreate ok_client
        (base_data\<lparr>storage_new := ListValue [rel ''S1'' True, rel ''S2'' False, rel ''S3'' False]\<rparr>))
       = Inl assertion_panic
   \<and> calls_issued (resourceGridscaleServerCreate ok_client
        (base_data\<lparr>storage_new := ListValue [rel ''S1'' True, rel ''S2'' False, rel ''S3'' False]\<rparr>))
       = []"
  using create_storage_list_panics
      [of "base_data\<lparr>storage_new := ListValue [rel ''S1'' True, rel ''S2'' False, rel ''S3'' False]\<rparr>"
          "[rel ''S1'' True, rel ''S2'' False, rel ''S3'' False]" ok_client "[]"]
  by (simp add: outcome_def calls_issued_def schema_conform_def base_data_def)

text \<open>
  C10. For the old storages \<open>A, B\<close> and the new storages \<open>B, C\<close> the update must unlink \<open>A\<close> and
  link \<open>C\<close>. The schema declares \<^verbatim>\<open>storage\<close> as a list and the loops assert a set: the update
  shuts the server down, sends the update request and panics at the assertion of the first
  loop, with no \<^verbatim>\<open>UnlinkStorage\<close> and no \<^verbatim>\<open>LinkStorage\<close>, and without the step for the power state.
\<close>

theorem update_panics_on_changed_storage_list:
  "schema_conform
      (base_data\<lparr>storage_old := ListValue [rel ''A'' True, rel ''B'' False],
                  storage_new := ListValue [rel ''B'' False, rel ''C'' False]\<rparr>)
   \<and> outcome (resourceGridscaleServerUpdate ok_client
        (base_data\<lparr>storage_old := ListValue [rel ''A'' True, rel ''B'' False],
                    storage_new := ListValue [rel ''B'' False, rel ''C'' False]\<rparr>))
       = Inl assertion_panic
   \<and> calls_issued (resourceGridscaleServerUpdate ok_client
        (base_data\<lparr>storage_old := ListValue [rel ''A'' True, rel ''B'' False],
                    storage_new := ListValue [rel ''B'' False, rel ''C'' False]\<rparr>))
       = [ShutdownServer ''srv'',
          UpdateServer ''srv'' \<lparr> upd_Name = ''web'', upd_AvailablityZone = ''az'',
            upd_Labels = [], upd_Cores = 4, upd_Memory = 4 \<rparr>]"
  using update_storage_list_panics [OF all_ok_ok_client,
      of "base_data\<lparr>storage_old := ListValue [rel ''A'' True, rel ''B'' False],
                    storage_new := ListValue [rel ''B'' False, rel ''C'' False]\<rparr>"
         "[rel ''A'' True, rel ''B'' False]" "[]"]
  by (simp add: outcome_def calls_issued_def schema_conform_def ok_eval)

end
